theory Spec2Isabelle
  imports Main "HOL-Library.Word"
begin

section \<open>Teseo HAL device orchestrator (AbstractDevice) and its Location model\<close>

text \<open>
  The development embeds \<^verbatim>\<open>src/device/AbstractDevice.cpp\<close> and the part of
  \<^verbatim>\<open>teseo/model/Location.h\<close> it relies on. Every method of the C++ class is a
  function from the state before the call to a result and the state after it. The state
  holds the fields of the object and the trace of the calls that leave the object: log
  lines, calls to the location service proxy, calls through the stream and decoder
  pointers, signal connections and signal emissions, in the order the code makes them.
  Dereferencing a null pointer is a fault, and the call stops there.
\<close>

subsection \<open>Scalar types\<close>

text \<open>
  \<^verbatim>\<open>GpsUtcTime\<close> is \<^verbatim>\<open>int64_t\<close> (hardware/gps.h). The \<^verbatim>\<open>double\<close> and \<^verbatim>\<open>float\<close>
  values are only stored and passed on, never computed with, so they are kept as their
  64-bit and 32-bit patterns. \<^verbatim>\<open>int\<close> is 32 bits wide.
\<close>

type_synonym GpsUtcTime = "64 word"
type_synonym cdouble = "64 word"
type_synonym cfloat = "32 word"
type_synonym cint = "32 word"

subsection \<open>Location (teseo/model/Location.h)\<close>

text \<open>
  The private members of \<^verbatim>\<open>class Location\<close>, in declaration order. The C++ names
  \<^verbatim>\<open>_latitude\<close>, \<^verbatim>\<open>_longitude\<close>, \<^verbatim>\<open>_altitude\<close>, \<^verbatim>\<open>_speed\<close>, \<^verbatim>\<open>_bearing\<close>,
  \<^verbatim>\<open>_accuracy\<close> and \<^verbatim>\<open>_timestamp\<close> start with an underscore; here they carry the
  prefix \<open>loc\<close> instead.
\<close>

record Location =
  loc_latitude :: cdouble
  loc_longitude :: cdouble
  hasLatLong :: bool
  loc_altitude :: cdouble
  hasAltitude :: bool
  loc_speed :: cfloat
  hasSpeed :: bool
  loc_bearing :: cfloat
  hasBearing :: bool
  loc_accuracy :: cfloat
  hasAccuracy :: bool
  loc_timestamp :: GpsUtcTime

text \<open>
  Modelled from the spec: the body of \<^verbatim>\<open>Location::locationValidity\<close> (Location.cpp is
  not among the sources; the header declares it as "Get location validity"). The spec:
  each of lat/long pair, altitude, speed, bearing, accuracy carries an independent
  validity flag, and minimal location validity requires valid latitude/longitude.
\<close>

definition Location_locationValidity :: "Location \<Rightarrow> bool" where
  "Location_locationValidity l = hasLatLong l"

text \<open>
  Modelled from the spec: the bodies of the five \<^verbatim>\<open>Location::invalidate...\<close> methods
  (Location.cpp is not among the sources; the header declares them as "Invalidate
  location", "Invalidate altitude", ...). The spec: invalidation is explicit and
  field-granular; invalidating a field leaves every other field's validity flag and value
  unchanged. The spec does not say that the stored value of the invalidated field is
  reset, so only its flag is cleared.
\<close>

definition Location_invalidateLocation :: "Location \<Rightarrow> Location" where
  "Location_invalidateLocation l = l\<lparr>hasLatLong := False\<rparr>"

definition Location_invalidateAltitude :: "Location \<Rightarrow> Location" where
  "Location_invalidateAltitude l = l\<lparr>hasAltitude := False\<rparr>"

definition Location_invalidateSpeed :: "Location \<Rightarrow> Location" where
  "Location_invalidateSpeed l = l\<lparr>hasSpeed := False\<rparr>"

definition Location_invalidateBearing :: "Location \<Rightarrow> Location" where
  "Location_invalidateBearing l = l\<lparr>hasBearing := False\<rparr>"

definition Location_invalidateAccuracy :: "Location \<Rightarrow> Location" where
  "Location_invalidateAccuracy l = l\<lparr>hasAccuracy := False\<rparr>"

text \<open>
  Modelled from the spec: the body of the setter \<^verbatim>\<open>Location::timestamp(GpsUtcTime)\<close>
  (Location.cpp is not among the sources; the header declares it as "Set and get
  timestamp value"). It stores the value; the orchestrator ignores the value returned.
\<close>

definition Location_timestamp :: "GpsUtcTime \<Rightarrow> Location \<Rightarrow> Location" where
  "Location_timestamp v l = l\<lparr>loc_timestamp := v\<rparr>"

text \<open>
  Modelled from the spec: the bodies of the value setters that the orchestrator calls
  (Location.cpp is not among the sources). The spec: fields are set incrementally, and a
  field's value is meaningful iff its validity flag is true; so a setter stores the value
  and raises the flag of its field. AbstractDevice.cpp calls one-argument setters
  \<^verbatim>\<open>latitude(v)\<close> and \<^verbatim>\<open>longitude(v)\<close>; the header among the sources declares the
  pair setter \<^verbatim>\<open>location(lat, lon)\<close> only. Both coordinates share the flag
  \<^verbatim>\<open>hasLatLong\<close>.
\<close>

definition Location_latitude :: "cdouble \<Rightarrow> Location \<Rightarrow> Location" where
  "Location_latitude v l = l\<lparr>loc_latitude := v, hasLatLong := True\<rparr>"

definition Location_longitude :: "cdouble \<Rightarrow> Location \<Rightarrow> Location" where
  "Location_longitude v l = l\<lparr>loc_longitude := v, hasLatLong := True\<rparr>"

definition Location_altitude :: "cdouble \<Rightarrow> Location \<Rightarrow> Location" where
  "Location_altitude v l = l\<lparr>loc_altitude := v, hasAltitude := True\<rparr>"

definition Location_speed :: "cfloat \<Rightarrow> Location \<Rightarrow> Location" where
  "Location_speed v l = l\<lparr>loc_speed := v, hasSpeed := True\<rparr>"

definition Location_bearing :: "cfloat \<Rightarrow> Location \<Rightarrow> Location" where
  "Location_bearing v l = l\<lparr>loc_bearing := v, hasBearing := True\<rparr>"

definition Location_accuracy :: "cfloat \<Rightarrow> Location \<Rightarrow> Location" where
  "Location_accuracy v l = l\<lparr>loc_accuracy := v, hasAccuracy := True\<rparr>"

subsection \<open>The device object and what it calls\<close>

text \<open>
  The stream and the decoder are objects owned elsewhere; the device holds a pointer to
  each. An object is named by its address, a pointer is \<open>None\<close> for \<^verbatim>\<open>nullptr\<close>.
\<close>

datatype IStream = IStream nat
datatype IDecoder = IDecoder nat

record AbstractDevice =
  stream :: "IStream option"
  decoder :: "IDecoder option"
  location :: Location
  timestamp :: GpsUtcTime

datatype log_level = LOGE | LOGW | LOGI

text \<open>The signals the code connects to, and the slots it connects.\<close>

datatype signal_id =
    Gps_start
  | Gps_stop
  | Device_onNmea
  | Device_locationUpdate
  | Stream_onNewBytes IStream

datatype slot_id =
    Slot_AbstractDevice_start
  | Slot_AbstractDevice_stop
  | Slot_gps_sendNmea
  | Slot_gps_sendLocationUpdate
  | Slot_IDecoder_onNewBytes IDecoder

text \<open>
  One event per call that leaves the object. \<^verbatim>\<open>NmeaMessage\<close> is declared in a header
  that is not among the sources, and the device only passes it on: it is the type
  parameter \<open>'n\<close>.
\<close>

datatype 'n event =
    Log log_level string
  | AcquireWakelock
  | ReleaseWakelock
  | RequestUtcTime
  | Decoder_start IDecoder
  | Decoder_stop IDecoder
  | Stream_startReading IStream
  | Stream_stopReading IStream
  | Connect signal_id slot_id
  | Emit_locationUpdate Location
  | Emit_onNmea GpsUtcTime 'n

record 'n world =
  dev :: AbstractDevice
  trace :: "'n event list"

datatype fault = NullDereference

type_synonym ('n, 'a) call = "'n world \<Rightarrow> (fault + 'a) \<times> 'n world"

definition emit :: "'n event \<Rightarrow> 'n world \<Rightarrow> 'n world" where
  "emit e w = w\<lparr>trace := trace w @ [e]\<rparr>"

definition set_location :: "(Location \<Rightarrow> Location) \<Rightarrow> 'n world \<Rightarrow> 'n world" where
  "set_location f w = w\<lparr>dev := (dev w)\<lparr>location := f (location (dev w))\<rparr>\<rparr>"

subsection \<open>AbstractDevice.cpp\<close>

text \<open>
  The constructor. \<^verbatim>\<open>Location()\<close> is not among the sources and the member
  \<^verbatim>\<open>timestamp\<close> is not initialised, so the fresh object's location and timestamp are
  parameters.
\<close>

definition AbstractDevice_new :: "Location \<Rightarrow> GpsUtcTime \<Rightarrow> 'n event list \<Rightarrow> 'n world" where
  "AbstractDevice_new loc0 ts0 tr =
     \<lparr>dev = \<lparr>stream = None, decoder = None, location = loc0, timestamp = ts0\<rparr>,
      trace = tr @ [Connect Gps_start Slot_AbstractDevice_start,
                    Connect Gps_stop Slot_AbstractDevice_stop,
                    Connect Device_onNmea Slot_gps_sendNmea,
                    Connect Device_locationUpdate Slot_gps_sendLocationUpdate]\<rparr>"

definition connectStreamToDecoder :: "('n, unit) call" where
  "connectStreamToDecoder w =
     (case stream (dev w) of
        None \<Rightarrow> (Inr (), emit (Log LOGE ''Stream isn't set, won't connect.'') w)
      | Some s \<Rightarrow>
          (case decoder (dev w) of
             None \<Rightarrow> (Inr (), emit (Log LOGE ''Decoder isn't set, won't connect.'') w)
           | Some d \<Rightarrow>
               (Inr (), emit (Connect (Stream_onNewBytes s) (Slot_IDecoder_onNewBytes d)) w)))"

definition setStream :: "IStream option \<Rightarrow> ('n, unit) call" where
  "setStream s w =
     (let w1 = (if s = None then emit (Log LOGW ''Setting stream to nullptr'') w else w)
      in (Inr (), w1\<lparr>dev := (dev w1)\<lparr>stream := s\<rparr>\<rparr>))"

definition setDecoder :: "IDecoder option \<Rightarrow> ('n, unit) call" where
  "setDecoder d w =
     (let w1 = (if d = None then emit (Log LOGW ''Setting decoder to nullptr'') w else w)
      in (Inr (), w1\<lparr>dev := (dev w1)\<lparr>decoder := d\<rparr>\<rparr>))"

definition update :: "('n, unit) call" where
  "update w =
     (if Location_locationValidity (location (dev w))
      then (Inr (), emit (Emit_locationUpdate (location (dev w))) w)
      else (Inr (), w))"

definition start :: "('n, cint) call" where
  "start w =
     (let w1 = emit (Log LOGI ''Start navigation'') w;
          w2 = emit AcquireWakelock w1;
          w3 = emit RequestUtcTime w2
      in case decoder (dev w3) of
           None \<Rightarrow> (Inl NullDereference, w3)
         | Some d \<Rightarrow>
             (let w4 = emit (Decoder_start d) w3
              in case stream (dev w4) of
                   None \<Rightarrow> (Inl NullDereference, w4)
                 | Some s \<Rightarrow> (Inr 0, emit (Stream_startReading s) w4)))"

definition stop :: "('n, cint) call" where
  "stop w =
     (let w1 = emit (Log LOGI ''Stop navigation'') w
      in case stream (dev w1) of
           None \<Rightarrow> (Inl NullDereference, w1)
         | Some s \<Rightarrow>
             (let w2 = emit (Stream_stopReading s) w1
              in case decoder (dev w2) of
                   None \<Rightarrow> (Inl NullDereference, w2)
                 | Some d \<Rightarrow> (Inr 0, emit ReleaseWakelock (emit (Decoder_stop d) w2))))"

definition setTimestamp :: "GpsUtcTime \<Rightarrow> ('n, unit) call" where
  "setTimestamp t w =
     (let w1 = w\<lparr>dev := (dev w)\<lparr>timestamp := t\<rparr>\<rparr>
      in (Inr (), set_location (Location_timestamp t) w1))"

definition invalidateLocation :: "('n, unit) call" where
  "invalidateLocation w = (Inr (), set_location Location_invalidateLocation w)"

definition invalidateAltitude :: "('n, unit) call" where
  "invalidateAltitude w = (Inr (), set_location Location_invalidateAltitude w)"

definition invalidateSpeed :: "('n, unit) call" where
  "invalidateSpeed w = (Inr (), set_location Location_invalidateSpeed w)"

definition invalidateBearing :: "('n, unit) call" where
  "invalidateBearing w = (Inr (), set_location Location_invalidateBearing w)"

definition invalidateAccuracy :: "('n, unit) call" where
  "invalidateAccuracy w = (Inr (), set_location Location_invalidateAccuracy w)"

definition setLocation :: "cdouble \<Rightarrow> cdouble \<Rightarrow> ('n, unit) call" where
  "setLocation latitude longitude w =
     (Inr (), set_location (Location_longitude longitude)
                (set_location (Location_latitude latitude) w))"

definition setAltitude :: "cdouble \<Rightarrow> ('n, unit) call" where
  "setAltitude altitude w = (Inr (), set_location (Location_altitude altitude) w)"

definition setSpeed :: "cfloat \<Rightarrow> ('n, unit) call" where
  "setSpeed speed w = (Inr (), set_location (Location_speed speed) w)"

definition setBearing :: "cfloat \<Rightarrow> ('n, unit) call" where
  "setBearing bearing w = (Inr (), set_location (Location_bearing bearing) w)"

definition setAccuracy :: "cfloat \<Rightarrow> ('n, unit) call" where
  "setAccuracy accuracy w = (Inr (), set_location (Location_accuracy accuracy) w)"

definition emitNmea :: "'n \<Rightarrow> ('n, unit) call" where
  "emitNmea nmea w = (Inr (), emit (Emit_onNmea (timestamp (dev w)) nmea) w)"

subsection \<open>Reading a trace\<close>

text \<open>
  The events a call appended to the trace, and the same with the log lines left out: the
  calls made on the platform, the decoder, the stream and the signals.
\<close>

definition since :: "'n world \<Rightarrow> 'n world \<Rightarrow> 'n event list" where
  "since w w' = drop (length (trace w)) (trace w')"

fun is_Log :: "'n event \<Rightarrow> bool" where
  "is_Log (Log lvl msg) = True"
| "is_Log e = False"

definition effects :: "'n event list \<Rightarrow> 'n event list" where
  "effects tr = filter (\<lambda>e. \<not> is_Log e) tr"

text \<open>The timestamps of the NMEA publications in a trace, in order.\<close>

fun nmea_timestamps :: "'n event list \<Rightarrow> GpsUtcTime list" where
  "nmea_timestamps [] = []"
| "nmea_timestamps (Emit_onNmea ts n # es) = ts # nmea_timestamps es"
| "nmea_timestamps (e # es) = nmea_timestamps es"

text \<open>Two states that differ at most in the in-progress location.\<close>

definition same_but_location :: "'n world \<Rightarrow> 'n world \<Rightarrow> bool" where
  "same_but_location w w' \<longleftrightarrow>
     stream (dev w') = stream (dev w) \<and> decoder (dev w') = decoder (dev w) \<and>
     timestamp (dev w') = timestamp (dev w) \<and> trace w' = trace w"

subsection \<open>A client of the device\<close>

text \<open>
  A client calls the public methods one after the other. A fault ends the run, as the
  crash would; the status returned by \<open>start\<close> and \<open>stop\<close> is dropped.
\<close>

datatype 'n op =
    Op_connectStreamToDecoder
  | Op_setStream "IStream option"
  | Op_setDecoder "IDecoder option"
  | Op_update
  | Op_start
  | Op_stop
  | Op_setTimestamp GpsUtcTime
  | Op_invalidateLocation
  | Op_invalidateAltitude
  | Op_invalidateSpeed
  | Op_invalidateBearing
  | Op_invalidateAccuracy
  | Op_setLocation cdouble cdouble
  | Op_setAltitude cdouble
  | Op_setSpeed cfloat
  | Op_setBearing cfloat
  | Op_setAccuracy cfloat
  | Op_emitNmea 'n

definition drop_status :: "(fault + cint) \<times> 'n world \<Rightarrow> (fault + unit) \<times> 'n world" where
  "drop_status r = (case fst r of Inl f \<Rightarrow> (Inl f, snd r) | Inr c \<Rightarrow> (Inr (), snd r))"

fun exec :: "'n op \<Rightarrow> ('n, unit) call" where
  "exec Op_connectStreamToDecoder w = connectStreamToDecoder w"
| "exec (Op_setStream s) w = setStream s w"
| "exec (Op_setDecoder d) w = setDecoder d w"
| "exec Op_update w = update w"
| "exec Op_start w = drop_status (start w)"
| "exec Op_stop w = drop_status (stop w)"
| "exec (Op_setTimestamp t) w = setTimestamp t w"
| "exec Op_invalidateLocation w = invalidateLocation w"
| "exec Op_invalidateAltitude w = invalidateAltitude w"
| "exec Op_invalidateSpeed w = invalidateSpeed w"
| "exec Op_invalidateBearing w = invalidateBearing w"
| "exec Op_invalidateAccuracy w = invalidateAccuracy w"
| "exec (Op_setLocation la lo) w = setLocation la lo w"
| "exec (Op_setAltitude v) w = setAltitude v w"
| "exec (Op_setSpeed v) w = setSpeed v w"
| "exec (Op_setBearing v) w = setBearing v w"
| "exec (Op_setAccuracy v) w = setAccuracy v w"
| "exec (Op_emitNmea n) w = emitNmea n w"

fun run :: "'n op list \<Rightarrow> ('n, unit) call" where
  "run [] w = (Inr (), w)"
| "run (c # cs) w =
     (case fst (exec c w) of
        Inl f \<Rightarrow> (Inl f, snd (exec c w))
      | Inr u \<Rightarrow> run cs (snd (exec c w)))"

fun is_setTimestamp :: "'n op \<Rightarrow> bool" where
  "is_setTimestamp (Op_setTimestamp t) = True"
| "is_setTimestamp c = False"

fun is_emitNmea :: "'n op \<Rightarrow> bool" where
  "is_emitNmea (Op_emitNmea n) = True"
| "is_emitNmea c = False"

subsection \<open>Sample objects\<close>

text \<open>
  A fix with no valid latitude/longitude whose speed, bearing and accuracy are valid, and
  a fix that has a position only.
\<close>

definition fix_without_position :: Location where
  "fix_without_position =
     \<lparr>loc_latitude = 0, loc_longitude = 0, hasLatLong = False,
      loc_altitude = 0, hasAltitude = False,
      loc_speed = 7, hasSpeed = True,
      loc_bearing = 8, hasBearing = True,
      loc_accuracy = 9, hasAccuracy = True,
      loc_timestamp = 1000\<rparr>"

definition fix_with_position :: Location where
  "fix_with_position =
     \<lparr>loc_latitude = 48, loc_longitude = 11, hasLatLong = True,
      loc_altitude = 545, hasAltitude = True,
      loc_speed = 0, hasSpeed = False,
      loc_bearing = 0, hasBearing = False,
      loc_accuracy = 0, hasAccuracy = False,
      loc_timestamp = 1000\<rparr>"

text \<open>
  A device as the constructor leaves it (nothing attached), one with only stream 16
  attached, one with only decoder 32 attached, and one with both attached and connected.
\<close>

definition fresh_device :: "string world" where
  "fresh_device = AbstractDevice_new fix_without_position 0 []"

definition stream_only_device :: "string world" where
  "stream_only_device = snd (run [Op_setStream (Some (IStream 16))] fresh_device)"

definition decoder_only_device :: "string world" where
  "decoder_only_device = snd (run [Op_setDecoder (Some (IDecoder 32))] fresh_device)"

definition attached_device :: "string world" where
  "attached_device =
     snd (run [Op_setStream (Some (IStream 16)), Op_setDecoder (Some (IDecoder 32)),
               Op_connectStreamToDecoder] fresh_device)"

section \<open>Proofs\<close>

lemmas device_defs =
  connectStreamToDecoder_def setStream_def setDecoder_def update_def start_def stop_def
  setTimestamp_def invalidateLocation_def invalidateAltitude_def invalidateSpeed_def
  invalidateBearing_def invalidateAccuracy_def setLocation_def setAltitude_def
  setSpeed_def setBearing_def setAccuracy_def emitNmea_def emit_def set_location_def
  drop_status_def

lemmas location_defs =
  Location_locationValidity_def Location_invalidateLocation_def
  Location_invalidateAltitude_def Location_invalidateSpeed_def
  Location_invalidateBearing_def Location_invalidateAccuracy_def Location_timestamp_def
  Location_latitude_def Location_longitude_def Location_altitude_def Location_speed_def
  Location_bearing_def Location_accuracy_def

subsection \<open>The sample objects, evaluated\<close>

lemma fresh_device_eq:
  "fresh_device =
     \<lparr>dev = \<lparr>stream = None, decoder = None,
             location = fix_without_position, timestamp = 0\<rparr>,
      trace = [Connect Gps_start Slot_AbstractDevice_start,
               Connect Gps_stop Slot_AbstractDevice_stop,
               Connect Device_onNmea Slot_gps_sendNmea,
               Connect Device_locationUpdate Slot_gps_sendLocationUpdate]\<rparr>"
  by (simp add: fresh_device_def AbstractDevice_new_def)

lemma stream_only_device_eq:
  "stream_only_device =
     \<lparr>dev = \<lparr>stream = Some (IStream 16), decoder = None,
             location = fix_without_position, timestamp = 0\<rparr>,
      trace = [Connect Gps_start Slot_AbstractDevice_start,
               Connect Gps_stop Slot_AbstractDevice_stop,
               Connect Device_onNmea Slot_gps_sendNmea,
               Connect Device_locationUpdate Slot_gps_sendLocationUpdate]\<rparr>"
  by (simp add: stream_only_device_def fresh_device_eq setStream_def)

lemma decoder_only_device_eq:
  "decoder_only_device =
     \<lparr>dev = \<lparr>stream = None, decoder = Some (IDecoder 32),
             location = fix_without_position, timestamp = 0\<rparr>,
      trace = [Connect Gps_start Slot_AbstractDevice_start,
               Connect Gps_stop Slot_AbstractDevice_stop,
               Connect Device_onNmea Slot_gps_sendNmea,
               Connect Device_locationUpdate Slot_gps_sendLocationUpdate]\<rparr>"
  by (simp add: decoder_only_device_def fresh_device_eq setDecoder_def)

lemma attached_device_eq:
  "attached_device =
     \<lparr>dev = \<lparr>stream = Some (IStream 16), decoder = Some (IDecoder 32),
             location = fix_without_position, timestamp = 0\<rparr>,
      trace = [Connect Gps_start Slot_AbstractDevice_start,
               Connect Gps_stop Slot_AbstractDevice_stop,
               Connect Device_onNmea Slot_gps_sendNmea,
               Connect Device_locationUpdate Slot_gps_sendLocationUpdate,
               Connect (Stream_onNewBytes (IStream 16)) (Slot_IDecoder_onNewBytes (IDecoder 32))]\<rparr>"
  by (simp add: attached_device_def fresh_device_eq setStream_def setDecoder_def
      connectStreamToDecoder_def emit_def)

subsection \<open>start and stop\<close>

text \<open>
  C1 (the code at the failing input). The constructor leaves \<^verbatim>\<open>stream\<close> and
  \<^verbatim>\<open>decoder\<close> null, and \<open>start\<close> has no guard: on a device with nothing attached
  it logs, acquires the wake lock, requests the UTC time and then calls through the null
  decoder pointer. With only a decoder attached it also starts the decoder before it
  calls through the null stream pointer. No failure code is returned in either case.
\<close>

theorem start_unattached_faults:
  "start fresh_device =
     (Inl NullDereference,
      fresh_device\<lparr>trace := trace fresh_device @
         [Log LOGI ''Start navigation'', AcquireWakelock, RequestUtcTime]\<rparr>)
   \<and> start decoder_only_device =
     (Inl NullDereference,
      decoder_only_device\<lparr>trace := trace decoder_only_device @
         [Log LOGI ''Start navigation'', AcquireWakelock, RequestUtcTime,
          Decoder_start (IDecoder 32)]\<rparr>)"
  by (simp add: fresh_device_eq decoder_only_device_eq start_def emit_def)

text \<open>
  C4. With a stream and a decoder attached, \<open>start\<close> succeeds with status 0, leaves
  the fields of the device as they were, and makes exactly these calls in this order:
  acquire the wake lock, request the UTC time, start the decoder, start the stream
  reading. The only other event is the log line written first.
\<close>

theorem start_effects_in_order:
  assumes "stream (dev w) = Some s" and "decoder (dev w) = Some d"
  shows "fst (start w) = Inr 0
       \<and> dev (snd (start w)) = dev w
       \<and> since w (snd (start w)) =
           [Log LOGI ''Start navigation'', AcquireWakelock, RequestUtcTime,
            Decoder_start d, Stream_startReading s]
       \<and> effects (since w (snd (start w))) =
           [AcquireWakelock, RequestUtcTime, Decoder_start d, Stream_startReading s]"
  using assms by (simp add: start_def emit_def since_def effects_def)

theorem start_effects_in_order_witness:
  "stream (dev attached_device) = Some (IStream 16)
   \<and> decoder (dev attached_device) = Some (IDecoder 32)
   \<and> fst (start attached_device) = Inr 0
   \<and> effects (since attached_device (snd (start attached_device))) =
       [AcquireWakelock, RequestUtcTime, Decoder_start (IDecoder 32),
        Stream_startReading (IStream 16)]"
proof -
  have s: "stream (dev attached_device) = Some (IStream 16)"
    and d: "decoder (dev attached_device) = Some (IDecoder 32)"
    by (simp_all add: attached_device_eq)
  show ?thesis using s d start_effects_in_order [OF s d] by blast
qed

text \<open>
  C5. With a stream and a decoder attached, \<open>stop\<close> makes exactly these calls in this
  order: stop the stream reading, stop the decoder, release the wake lock; it returns
  status 0 and leaves the fields of the device as they were. The only other event is
  the log line written first.
\<close>

theorem stop_effects_in_order:
  assumes "stream (dev w) = Some s" and "decoder (dev w) = Some d"
  shows "fst (stop w) = Inr 0
       \<and> dev (snd (stop w)) = dev w
       \<and> since w (snd (stop w)) =
           [Log LOGI ''Stop navigation'', Stream_stopReading s, Decoder_stop d,
            ReleaseWakelock]
       \<and> effects (since w (snd (stop w))) =
           [Stream_stopReading s, Decoder_stop d, ReleaseWakelock]"
  using assms by (simp add: stop_def emit_def since_def effects_def)

theorem stop_effects_in_order_witness:
  "stream (dev (snd (start attached_device))) = Some (IStream 16)
   \<and> decoder (dev (snd (start attached_device))) = Some (IDecoder 32)
   \<and> fst (stop (snd (start attached_device))) = Inr 0
   \<and> effects (since (snd (start attached_device)) (snd (stop (snd (start attached_device))))) =
       [Stream_stopReading (IStream 16), Decoder_stop (IDecoder 32), ReleaseWakelock]"
proof -
  have s: "stream (dev (snd (start attached_device))) = Some (IStream 16)"
    and d: "decoder (dev (snd (start attached_device))) = Some (IDecoder 32)"
    by (simp_all add: attached_device_eq start_def emit_def)
  show ?thesis using s d stop_effects_in_order [OF s d] by blast
qed

text \<open>
  C3 (counterexample). On a device with stream 16 and decoder 32 attached, a second
  \<open>start\<close> right after a successful one returns the same status 0 and repeats all four
  calls, the wake-lock acquisition included; and \<open>stop\<close> on a device that was never
  started is not a no-op: it stops the stream and the decoder and releases the wake lock.
\<close>

theorem start_stop_guard_counterexample:
  "fst (start attached_device) = Inr 0
   \<and> fst (start (snd (start attached_device))) = Inr 0
   \<and> effects (since attached_device (snd (start (snd (start attached_device))))) =
       [AcquireWakelock, RequestUtcTime, Decoder_start (IDecoder 32),
        Stream_startReading (IStream 16),
        AcquireWakelock, RequestUtcTime, Decoder_start (IDecoder 32),
        Stream_startReading (IStream 16)]
   \<and> fst (stop attached_device) = Inr 0
   \<and> effects (since attached_device (snd (stop attached_device))) =
       [Stream_stopReading (IStream 16), Decoder_stop (IDecoder 32), ReleaseWakelock]"
  by (simp add: attached_device_eq start_def stop_def emit_def since_def effects_def)

text \<open>
  C3 (as amended). The device keeps no Idle/Navigating state and neither method has a
  guard: with a stream and a decoder attached, every \<open>stop\<close> returns status 0 and
  makes its three calls, whatever came before, also a \<open>stop\<close> right after a \<open>stop\<close>;
  and every \<open>start\<close> returns status 0 and makes its four calls, also a \<open>start\<close>
  right after a successful \<open>start\<close>.
\<close>

theorem start_stop_unguarded:
  assumes "stream (dev w) = Some s" and "decoder (dev w) = Some d"
  shows "fst (stop w) = Inr 0
       \<and> effects (since w (snd (stop w))) =
           [Stream_stopReading s, Decoder_stop d, ReleaseWakelock]
       \<and> fst (start (snd (start w))) = Inr 0
       \<and> effects (since (snd (start w)) (snd (start (snd (start w))))) =
           [AcquireWakelock, RequestUtcTime, Decoder_start d, Stream_startReading s]
       \<and> fst (stop (snd (stop w))) = Inr 0
       \<and> effects (since (snd (stop w)) (snd (stop (snd (stop w))))) =
           [Stream_stopReading s, Decoder_stop d, ReleaseWakelock]"
  using assms by (simp add: start_def stop_def emit_def since_def effects_def)

theorem start_stop_unguarded_witness:
  "stream (dev attached_device) = Some (IStream 16)
   \<and> decoder (dev attached_device) = Some (IDecoder 32)
   \<and> fst (stop attached_device) = Inr 0
   \<and> fst (start (snd (start attached_device))) = Inr 0
   \<and> effects (since (snd (start attached_device)) (snd (start (snd (start attached_device))))) =
       [AcquireWakelock, RequestUtcTime, Decoder_start (IDecoder 32),
        Stream_startReading (IStream 16)]"
proof -
  have s: "stream (dev attached_device) = Some (IStream 16)"
    and d: "decoder (dev attached_device) = Some (IDecoder 32)"
    by (simp_all add: attached_device_eq)
  show ?thesis using s d start_stop_unguarded [OF s d] by blast
qed

subsection \<open>Attachment\<close>

text \<open>
  C6. \<open>connectStreamToDecoder\<close> never faults and never changes the device. With no
  stream it writes one error line and connects nothing; with a stream and no decoder it
  writes one error line and connects nothing; with both it connects the stream's
  new-bytes signal to the decoder's \<^verbatim>\<open>onNewBytes\<close> and does nothing else.
\<close>

theorem connectStreamToDecoder_guarded:
  "fst (connectStreamToDecoder w) = Inr ()
   \<and> dev (snd (connectStreamToDecoder w)) = dev w
   \<and> (stream (dev w) = None \<longrightarrow>
        since w (snd (connectStreamToDecoder w)) =
          [Log LOGE ''Stream isn't set, won't connect.''])
   \<and> (stream (dev w) \<noteq> None \<and> decoder (dev w) = None \<longrightarrow>
        since w (snd (connectStreamToDecoder w)) =
          [Log LOGE ''Decoder isn't set, won't connect.''])
   \<and> (stream (dev w) = None \<or> decoder (dev w) = None \<longrightarrow>
        effects (since w (snd (connectStreamToDecoder w))) = [])
   \<and> (\<forall>s d. stream (dev w) = Some s \<and> decoder (dev w) = Some d \<longrightarrow>
        since w (snd (connectStreamToDecoder w)) =
          [Connect (Stream_onNewBytes s) (Slot_IDecoder_onNewBytes d)])"
  by (simp add: connectStreamToDecoder_def emit_def since_def effects_def
      split: option.splits)

theorem connectStreamToDecoder_guarded_witness:
  "stream (dev fresh_device) = None
   \<and> since fresh_device (snd (connectStreamToDecoder fresh_device)) =
       [Log LOGE ''Stream isn't set, won't connect.'']
   \<and> stream (dev stream_only_device) \<noteq> None \<and> decoder (dev stream_only_device) = None
   \<and> since stream_only_device (snd (connectStreamToDecoder stream_only_device)) =
       [Log LOGE ''Decoder isn't set, won't connect.'']
   \<and> effects (since stream_only_device (snd (connectStreamToDecoder stream_only_device))) = []
   \<and> stream (dev attached_device) = Some (IStream 16)
   \<and> decoder (dev attached_device) = Some (IDecoder 32)
   \<and> since attached_device (snd (connectStreamToDecoder attached_device)) =
       [Connect (Stream_onNewBytes (IStream 16)) (Slot_IDecoder_onNewBytes (IDecoder 32))]"
proof -
  have a: "stream (dev fresh_device) = None"
    by (simp add: fresh_device_eq)
  have b: "stream (dev stream_only_device) \<noteq> None \<and> decoder (dev stream_only_device) = None"
    by (simp add: stream_only_device_eq)
  have c: "stream (dev attached_device) = Some (IStream 16)
           \<and> decoder (dev attached_device) = Some (IDecoder 32)"
    by (simp add: attached_device_eq)
  show ?thesis
    using a b c connectStreamToDecoder_guarded [of fresh_device]
      connectStreamToDecoder_guarded [of stream_only_device]
      connectStreamToDecoder_guarded [of attached_device]
    by (simp add: effects_def)
qed

text \<open>
  C9. \<open>setStream\<close> and \<open>setDecoder\<close> store their argument whatever it is; for a null
  pointer they write a warning and store it all the same. \<open>start\<close> and \<open>stop\<close> call
  through both pointers unguarded: each faults on a null dereference exactly when the
  stream or the decoder pointer is null, so also right after a null pointer was attached.
\<close>

theorem attachment_unchecked:
  "fst (setStream s w) = Inr () \<and> stream (dev (snd (setStream s w))) = s
   \<and> since w (snd (setStream s w)) =
       (if s = None then [Log LOGW ''Setting stream to nullptr''] else [])
   \<and> fst (setDecoder d w) = Inr () \<and> decoder (dev (snd (setDecoder d w))) = d
   \<and> since w (snd (setDecoder d w)) =
       (if d = None then [Log LOGW ''Setting decoder to nullptr''] else [])
   \<and> (fst (start w) = Inl NullDereference \<longleftrightarrow>
        stream (dev w) = None \<or> decoder (dev w) = None)
   \<and> (fst (stop w) = Inl NullDereference \<longleftrightarrow>
        stream (dev w) = None \<or> decoder (dev w) = None)
   \<and> fst (start (snd (setStream None w))) = Inl NullDereference
   \<and> fst (start (snd (setDecoder None w))) = Inl NullDereference
   \<and> fst (stop (snd (setStream None w))) = Inl NullDereference
   \<and> fst (stop (snd (setDecoder None w))) = Inl NullDereference"
  by (simp add: setStream_def setDecoder_def start_def stop_def emit_def since_def Let_def
      split: option.splits)

theorem attachment_unchecked_witness:
  "stream (dev (snd (setStream None attached_device))) = None
   \<and> since attached_device (snd (setStream None attached_device)) =
       [Log LOGW ''Setting stream to nullptr'']
   \<and> fst (start attached_device) \<noteq> Inl NullDereference
   \<and> fst (start (snd (setStream None attached_device))) = Inl NullDereference
   \<and> fst (stop (snd (setDecoder None attached_device))) = Inl NullDereference"
  using attachment_unchecked [of None attached_device None]
  by (simp add: attached_device_eq)


subsection \<open>Publishing\<close>

text \<open>
  C2. \<open>update\<close> publishes the in-progress location on the location-update signal if
  and only if the location passes \<^verbatim>\<open>locationValidity\<close>, that is, if and only if its
  latitude/longitude flag is set; the other validity flags play no part. It publishes
  nothing else, never faults, and leaves the device, the in-progress location included,
  as it was.
\<close>

theorem update_publishes_iff_valid:
  "fst (update w) = Inr ()
   \<and> dev (snd (update w)) = dev w
   \<and> (Emit_locationUpdate (location (dev w)) \<in> set (since w (snd (update w)))
        \<longleftrightarrow> Location_locationValidity (location (dev w)))
   \<and> (Location_locationValidity (location (dev w)) \<longleftrightarrow> hasLatLong (location (dev w)))
   \<and> since w (snd (update w)) =
       (if hasLatLong (location (dev w)) then [Emit_locationUpdate (location (dev w))]
        else [])
   \<and> (\<not> hasLatLong (location (dev w)) \<longrightarrow> snd (update w) = w)"
  by (simp add: update_def Location_locationValidity_def emit_def since_def)

theorem update_publishes_iff_valid_witness:
  "\<not> hasLatLong (location (dev attached_device))
   \<and> hasSpeed (location (dev attached_device))
   \<and> hasBearing (location (dev attached_device))
   \<and> hasAccuracy (location (dev attached_device))
   \<and> since attached_device (snd (update attached_device)) = []
   \<and> snd (update attached_device) = attached_device
   \<and> hasLatLong (location (dev (snd (setLocation 48 11 attached_device))))
   \<and> since (snd (setLocation 48 11 attached_device))
        (snd (update (snd (setLocation 48 11 attached_device)))) =
       [Emit_locationUpdate (location (dev (snd (setLocation 48 11 attached_device))))]"
proof -
  have a: "\<not> hasLatLong (location (dev attached_device))"
    "hasSpeed (location (dev attached_device))"
    "hasBearing (location (dev attached_device))"
    "hasAccuracy (location (dev attached_device))"
    by (simp_all add: attached_device_eq fix_without_position_def)
  have b: "hasLatLong (location (dev (snd (setLocation 48 11 attached_device))))"
    by (simp add: setLocation_def set_location_def Location_longitude_def)
  show ?thesis
    using a b update_publishes_iff_valid [of attached_device]
      update_publishes_iff_valid [of "snd (setLocation 48 11 attached_device)"]
    by (simp add: since_def)
qed

text \<open>
  C8. \<open>emitNmea\<close> publishes the sentence on the NMEA signal in every state: exactly one
  event, carrying the device's timestamp and the sentence as given. It never faults,
  changes nothing in the device, and the publication does not depend on the in-progress
  location.
\<close>

theorem emitNmea_unconditional:
  "fst (emitNmea nmea w) = Inr ()
   \<and> dev (snd (emitNmea nmea w)) = dev w
   \<and> since w (snd (emitNmea nmea w)) = [Emit_onNmea (timestamp (dev w)) nmea]
   \<and> since (w\<lparr>dev := (dev w)\<lparr>location := l\<rparr>\<rparr>)
        (snd (emitNmea nmea (w\<lparr>dev := (dev w)\<lparr>location := l\<rparr>\<rparr>))) =
       since w (snd (emitNmea nmea w))"
  by (simp add: emitNmea_def emit_def since_def)

theorem emitNmea_unconditional_witness:
  "\<not> Location_locationValidity (location (dev attached_device))
   \<and> since attached_device (snd (emitNmea ''$GPGGA'' attached_device)) =
       [Emit_onNmea 0 ''$GPGGA'']
   \<and> since (attached_device\<lparr>dev := (dev attached_device)\<lparr>location := fix_with_position\<rparr>\<rparr>)
        (snd (emitNmea ''$GPGGA''
           (attached_device\<lparr>dev := (dev attached_device)\<lparr>location := fix_with_position\<rparr>\<rparr>))) =
       [Emit_onNmea 0 ''$GPGGA'']"
  using emitNmea_unconditional [of "''$GPGGA''" attached_device fix_with_position]
  by (simp add: attached_device_eq fix_without_position_def Location_locationValidity_def)

subsection \<open>Invalidation\<close>

text \<open>
  C7. Each of the five invalidations clears the validity flag of its own field and
  nothing else: putting that one flag back gives the location as it was, so every other
  flag and every stored value is unchanged (invalidating the altitude, for one, leaves
  the speed and its flag alone). The orchestrator's operation of the same name applies
  exactly that invalidation to the in-progress location, never faults, and leaves the
  stream, the decoder, the timestamp and the trace as they were.
\<close>

theorem invalidate_field_independence:
  "(Location_invalidateLocation l)\<lparr>hasLatLong := hasLatLong l\<rparr> = l
   \<and> (Location_invalidateAltitude l)\<lparr>hasAltitude := hasAltitude l\<rparr> = l
   \<and> (Location_invalidateSpeed l)\<lparr>hasSpeed := hasSpeed l\<rparr> = l
   \<and> (Location_invalidateBearing l)\<lparr>hasBearing := hasBearing l\<rparr> = l
   \<and> (Location_invalidateAccuracy l)\<lparr>hasAccuracy := hasAccuracy l\<rparr> = l
   \<and> \<not> hasLatLong (Location_invalidateLocation l)
   \<and> \<not> hasAltitude (Location_invalidateAltitude l)
   \<and> \<not> hasSpeed (Location_invalidateSpeed l)
   \<and> \<not> hasBearing (Location_invalidateBearing l)
   \<and> \<not> hasAccuracy (Location_invalidateAccuracy l)
   \<and> hasSpeed (Location_invalidateAltitude l) = hasSpeed l
   \<and> loc_speed (Location_invalidateAltitude l) = loc_speed l
   \<and> fst (invalidateLocation w) = Inr ()
   \<and> same_but_location w (snd (invalidateLocation w))
   \<and> location (dev (snd (invalidateLocation w))) =
       Location_invalidateLocation (location (dev w))
   \<and> fst (invalidateAltitude w) = Inr ()
   \<and> same_but_location w (snd (invalidateAltitude w))
   \<and> location (dev (snd (invalidateAltitude w))) =
       Location_invalidateAltitude (location (dev w))
   \<and> fst (invalidateSpeed w) = Inr ()
   \<and> same_but_location w (snd (invalidateSpeed w))
   \<and> location (dev (snd (invalidateSpeed w))) =
       Location_invalidateSpeed (location (dev w))
   \<and> fst (invalidateBearing w) = Inr ()
   \<and> same_but_location w (snd (invalidateBearing w))
   \<and> location (dev (snd (invalidateBearing w))) =
       Location_invalidateBearing (location (dev w))
   \<and> fst (invalidateAccuracy w) = Inr ()
   \<and> same_but_location w (snd (invalidateAccuracy w))
   \<and> location (dev (snd (invalidateAccuracy w))) =
       Location_invalidateAccuracy (location (dev w))"
  by (simp add: location_defs invalidateLocation_def invalidateAltitude_def
      invalidateSpeed_def invalidateBearing_def invalidateAccuracy_def set_location_def
      same_but_location_def)

theorem invalidate_field_independence_witness:
  "Location_invalidateAltitude fix_with_position =
     \<lparr>loc_latitude = 48, loc_longitude = 11, hasLatLong = True,
      loc_altitude = 545, hasAltitude = False,
      loc_speed = 0, hasSpeed = False,
      loc_bearing = 0, hasBearing = False,
      loc_accuracy = 0, hasAccuracy = False,
      loc_timestamp = 1000\<rparr>
   \<and> hasSpeed (location (dev (snd (invalidateAltitude attached_device))))
   \<and> loc_speed (location (dev (snd (invalidateAltitude attached_device)))) = 7
   \<and> \<not> hasSpeed (location (dev (snd (invalidateSpeed attached_device))))
   \<and> hasBearing (location (dev (snd (invalidateSpeed attached_device))))
   \<and> same_but_location attached_device (snd (invalidateSpeed attached_device))"
  using invalidate_field_independence
    [of fix_with_position attached_device]
  by (simp add: attached_device_eq fix_without_position_def fix_with_position_def
      location_defs invalidateAltitude_def invalidateSpeed_def set_location_def
      same_but_location_def)

subsection \<open>Timestamps\<close>

lemma nmea_timestamps_append:
  "nmea_timestamps (xs @ ys) = nmea_timestamps xs @ nmea_timestamps ys"
  by (induction xs rule: nmea_timestamps.induct) simp_all

lemma since_append: "trace w' = trace w @ evs \<Longrightarrow> since w w' = evs"
  by (simp add: since_def)

text \<open>No operation but \<open>setTimestamp\<close> writes the device's timestamp.\<close>

lemma exec_timestamp:
  "\<not> is_setTimestamp c \<Longrightarrow> timestamp (dev (snd (exec c w))) = timestamp (dev w)"
  by (cases c) (simp_all add: device_defs Let_def split: option.splits)

text \<open>
  An operation only appends to the trace; what it publishes on the NMEA signal carries
  the device's timestamp, and only \<open>emitNmea\<close> publishes there, once.
\<close>

lemma exec_trace:
  "\<exists>evs. trace (snd (exec c w)) = trace w @ evs
        \<and> set (nmea_timestamps evs) \<subseteq> {timestamp (dev w)}
        \<and> (fst (exec c w) = Inr () \<longrightarrow>
             length (nmea_timestamps evs) = (if is_emitNmea c then 1 else 0))"
  by (cases c) (simp_all add: device_defs Let_def split: option.splits)

lemma run_trace:
  "\<forall>c \<in> set cs. \<not> is_setTimestamp c \<Longrightarrow>
   \<exists>evs. trace (snd (run cs w)) = trace w @ evs
        \<and> set (nmea_timestamps evs) \<subseteq> {timestamp (dev w)}
        \<and> (fst (run cs w) = Inr () \<longrightarrow>
             length (nmea_timestamps evs) = length (filter is_emitNmea cs))"
proof (induction cs arbitrary: w)
  case Nil
  then show ?case by simp
next
  case (Cons c cs)
  obtain e1 where e1: "trace (snd (exec c w)) = trace w @ e1"
    "set (nmea_timestamps e1) \<subseteq> {timestamp (dev w)}"
    "fst (exec c w) = Inr () \<longrightarrow> length (nmea_timestamps e1) = (if is_emitNmea c then 1 else 0)"
    using exec_trace[of c w] by blast
  show ?case
  proof (cases "fst (exec c w)")
    case (Inl f)
    then show ?thesis using e1 by auto
  next
    case (Inr u)
    have ts: "timestamp (dev (snd (exec c w))) = timestamp (dev w)"
      using Cons.prems by (intro exec_timestamp) simp
    obtain e2 where e2: "trace (snd (run cs (snd (exec c w)))) = trace (snd (exec c w)) @ e2"
      "set (nmea_timestamps e2) \<subseteq> {timestamp (dev (snd (exec c w)))}"
      "fst (run cs (snd (exec c w))) = Inr () \<longrightarrow>
         length (nmea_timestamps e2) = length (filter is_emitNmea cs)"
      using Cons.IH[of "snd (exec c w)"] Cons.prems by auto
    have "trace (snd (run (c # cs) w)) = trace w @ (e1 @ e2)"
      using Inr e1(1) e2(1) by simp
    moreover have "set (nmea_timestamps (e1 @ e2)) \<subseteq> {timestamp (dev w)}"
      using e1(2) e2(2) ts by (simp add: nmea_timestamps_append)
    moreover have "fst (run (c # cs) w) = Inr () \<longrightarrow>
        length (nmea_timestamps (e1 @ e2)) = length (filter is_emitNmea (c # cs))"
      using Inr e1(3) e2(3) by (simp add: nmea_timestamps_append)
    ultimately show ?thesis by blast
  qed
qed

text \<open>
  C10. \<open>setTimestamp t\<close> never faults and writes \<open>t\<close> to the device's timestamp and to
  the timestamp of the in-progress location; every other field of the location, the
  stream, the decoder and the trace stay as they were. An \<open>emitNmea\<close> that follows
  publishes \<open>t\<close> with the sentence, whatever the sentence is. The same holds after any
  sequence of further operations that has no \<open>setTimestamp\<close> in it: every NMEA
  publication of the sequence carries \<open>t\<close>, and when the sequence runs to its end there
  is one such publication for each \<open>emitNmea\<close> in it.
\<close>

theorem setTimestamp_then_emitNmea:
  "fst (setTimestamp t w) = Inr ()
   \<and> timestamp (dev (snd (setTimestamp t w))) = t
   \<and> loc_timestamp (location (dev (snd (setTimestamp t w)))) = t
   \<and> (location (dev (snd (setTimestamp t w))))\<lparr>loc_timestamp := loc_timestamp (location (dev w))\<rparr>
       = location (dev w)
   \<and> stream (dev (snd (setTimestamp t w))) = stream (dev w)
   \<and> decoder (dev (snd (setTimestamp t w))) = decoder (dev w)
   \<and> trace (snd (setTimestamp t w)) = trace w
   \<and> since (snd (setTimestamp t w)) (snd (emitNmea nmea (snd (setTimestamp t w))))
       = [Emit_onNmea t nmea]
   \<and> ((\<forall>c \<in> set cs. \<not> is_setTimestamp c) \<longrightarrow>
        set (nmea_timestamps (since (snd (setTimestamp t w)) (snd (run cs (snd (setTimestamp t w))))))
          \<subseteq> {t}
        \<and> (fst (run cs (snd (setTimestamp t w))) = Inr () \<longrightarrow>
             nmea_timestamps (since (snd (setTimestamp t w)) (snd (run cs (snd (setTimestamp t w)))))
               = replicate (length (filter is_emitNmea cs)) t))"
proof -
  let ?w1 = "snd (setTimestamp t w)"
  have ts: "timestamp (dev ?w1) = t"
    by (simp add: setTimestamp_def set_location_def)
  have basic: "fst (setTimestamp t w) = Inr ()"
    "loc_timestamp (location (dev ?w1)) = t"
    "(location (dev ?w1))\<lparr>loc_timestamp := loc_timestamp (location (dev w))\<rparr> = location (dev w)"
    "stream (dev ?w1) = stream (dev w)"
    "decoder (dev ?w1) = decoder (dev w)"
    "trace ?w1 = trace w"
    by (simp_all add: setTimestamp_def set_location_def Location_timestamp_def)
  have emit1: "since ?w1 (snd (emitNmea nmea ?w1)) = [Emit_onNmea t nmea]"
    using ts by (simp add: emitNmea_def emit_def since_def)
  have later: "set (nmea_timestamps (since ?w1 (snd (run cs ?w1)))) \<subseteq> {t}
        \<and> (fst (run cs ?w1) = Inr () \<longrightarrow>
             nmea_timestamps (since ?w1 (snd (run cs ?w1)))
               = replicate (length (filter is_emitNmea cs)) t)"
    if nos: "\<forall>c \<in> set cs. \<not> is_setTimestamp c"
  proof -
    obtain evs where evs: "trace (snd (run cs ?w1)) = trace ?w1 @ evs"
      "set (nmea_timestamps evs) \<subseteq> {timestamp (dev ?w1)}"
      "fst (run cs ?w1) = Inr () \<longrightarrow>
         length (nmea_timestamps evs) = length (filter is_emitNmea cs)"
      using run_trace[OF nos, of ?w1] by blast
    have s: "since ?w1 (snd (run cs ?w1)) = evs"
      using evs(1) by (rule since_append)
    have sub: "set (nmea_timestamps evs) \<subseteq> {t}"
      using evs(2) ts by simp
    have "nmea_timestamps evs = replicate (length (nmea_timestamps evs)) t"
      using sub by (intro replicate_length_same[symmetric]) auto
    then show ?thesis using s sub evs(3) by auto
  qed
  show ?thesis using ts basic emit1 later by blast
qed

theorem setTimestamp_then_emitNmea_witness:
  "filter is_setTimestamp [Op_emitNmea ''$GPGGA'', Op_setSpeed 3, Op_start,
                           Op_emitNmea ''$GPRMC'', Op_update, Op_stop] = []
   \<and> fst (run [Op_emitNmea ''$GPGGA'', Op_setSpeed 3, Op_start, Op_emitNmea ''$GPRMC'',
               Op_update, Op_stop] (snd (setTimestamp 5000 attached_device))) = Inr ()
   \<and> timestamp (dev attached_device) = 0
   \<and> timestamp (dev (snd (setTimestamp 5000 attached_device))) = 5000
   \<and> loc_timestamp (location (dev (snd (setTimestamp 5000 attached_device)))) = 5000
   \<and> nmea_timestamps (since (snd (setTimestamp 5000 attached_device))
       (snd (run [Op_emitNmea ''$GPGGA'', Op_setSpeed 3, Op_start, Op_emitNmea ''$GPRMC'',
                  Op_update, Op_stop] (snd (setTimestamp 5000 attached_device)))))
       = [5000, 5000]"
proof -
  let ?cs = "[Op_emitNmea ''$GPGGA'', Op_setSpeed 3, Op_start, Op_emitNmea ''$GPRMC'',
              Op_update, Op_stop] :: string op list"
  have a: "\<forall>c \<in> set ?cs. \<not> is_setTimestamp c"
    by simp
  have b: "fst (run ?cs (snd (setTimestamp 5000 attached_device))) = Inr ()"
    by (simp add: attached_device_eq device_defs location_defs fix_without_position_def)
  have c: "timestamp (dev attached_device) = 0"
    by (simp add: attached_device_eq)
  have d: "replicate (length (filter is_emitNmea ?cs)) (5000 :: GpsUtcTime) = [5000, 5000]"
    by simp
  show ?thesis
    using a b c d setTimestamp_then_emitNmea [of 5000 attached_device _ ?cs]
    by simp
qed

end
